theory Spec2Isabelle
  imports Complex_Main
begin

section \<open>The reservation handler of the hostel backend\<close>

text \<open>
  A shallow embedding of \<^verbatim>\<open>Lambda_reservas_handler.py\<close>. The three DynamoDB tables, the
  mail outbox and the BI queue are fields of one explicit state (\<open>mundo\<close>) that every
  function receives and returns; every \<^verbatim>\<open>try/except\<close> of the source is a case
  distinction on a sum whose left side is the exception raised.

  String literals are written without the diacritics of the Portuguese originals
  (\<^verbatim>\<open>nao\<close> for the source's n-a-tilde-o, and so on), since the theory is plain ASCII.
\<close>

subsection \<open>Values, exceptions and the environment\<close>

text \<open>
  The values a decoded JSON request can hold. JSON numbers are integers here; a
  fractional guest count is outside the model.
\<close>

datatype json = JNull | JBool bool | JInt int | JStr string | JList "json list"

type_synonym dados = "string \<rightharpoonup> json"

datatype excecao = KeyError | ValueError | TypeError | NameError | ClientError

text \<open>
  A \<^verbatim>\<open>datetime\<close> is the number of microseconds since a fixed origin (a naive datetime:
  strings with a UTC offset are outside the model), so that \<^verbatim>\<open>(b - a).days\<close> is the
  floor division of the difference by one day.

  What the handler takes from outside is gathered in \<open>ambiente\<close>: the library parsers
  (\<open>None\<close> when they raise), the identifier drawn by \<^verbatim>\<open>uuid.uuid4()\<close>, the clock, the
  \<^verbatim>\<open>FROM_EMAIL\<close> and \<^verbatim>\<open>BI_QUEUE_URL\<close> variables, and for each call of an AWS client
  whether that call raises. \<open>json_loads\<close> is \<^verbatim>\<open>json.loads\<close> on the body of an event,
  \<open>None\<close> when it raises or yields anything but an object (on which \<^verbatim>\<open>body.get\<close>
  raises).
\<close>

type_synonym datetime = int

definition um_dia :: int where
  "um_dia = 86400000000"

definition days :: "int \<Rightarrow> int" where
  "days delta = delta div um_dia"

record ambiente =
  fromisoformat :: "string \<Rightarrow> datetime option"
  int_de_str :: "string \<Rightarrow> int option"
  json_loads :: "string \<Rightarrow> dados option"
  uuid4 :: string
  agora :: string
  from_email :: "string option"
  bi_queue_url :: "string option"
  falha_query_tipo :: bool
  falha_query_preco :: bool
  falha_scan_quartos :: bool
  falha_query_reservas :: "string \<Rightarrow> bool"
  falha_put_cliente :: bool
  falha_put_reserva :: bool
  falha_ses :: bool
  falha_sqs :: bool

subsection \<open>Tables and responses\<close>

record quarto =
  quarto_id :: string
  tipo :: string
  capacidade :: int
  preco_diaria :: real

text \<open>
  An item of the reservation table. The attribute \<^verbatim>\<open>quarto_id\<close>, the key of the index
  \<^verbatim>\<open>quarto-data-index\<close>, is optional: an item that lacks it is not in that index.
\<close>

record reserva =
  reserva_id :: string
  r_quarto_id :: "string option"
  r_cliente_email :: json
  r_cliente_nome :: json
  r_cliente_telefone :: json
  r_checkin :: json
  r_checkout :: json
  r_tipo_quarto :: json
  r_num_hospedes :: int
  r_valor_total :: real
  r_status :: string
  r_data_criacao :: string
  r_servicos_extras :: json
  r_observacoes :: json

record cliente =
  c_email :: json
  c_nome :: json
  c_telefone :: json
  c_ultima_atualizacao :: string

record mundo =
  quartos_table :: "quarto list"
  reservas_table :: "reserva list"
  clientes_table :: "cliente list"
  emails_enviados :: "(json \<times> string) list"
  fila_bi :: "string list"

datatype corpo =
    Erro string
  | ReservaCriada string real
  | QuartosDisponiveis "quarto list" nat

record resposta =
  statusCode :: int
  headers :: "(string \<times> string) list"
  body :: corpo

definition headers_cors :: "(string \<times> string) list" where
  "headers_cors =
     [(''Access-Control-Allow-Origin'', ''*''),
      (''Access-Control-Allow-Headers'',
       ''Content-Type,X-Amz-Date,Authorization,X-Api-Key,X-Amz-Security-Token''),
      (''Access-Control-Allow-Methods'', ''GET,POST,OPTIONS,PUT,DELETE'')]"

definition erro_response :: "string \<Rightarrow> resposta" where
  "erro_response mensagem =
     \<lparr>statusCode = 400, headers = headers_cors, body = Erro mensagem\<rparr>"

subsection \<open>Library calls on JSON values\<close>

text \<open>\<^verbatim>\<open>datetime.fromisoformat(v)\<close>: a TypeError on anything but a string.\<close>

definition py_fromisoformat :: "ambiente \<Rightarrow> json \<Rightarrow> datetime option" where
  "py_fromisoformat env v = (case v of JStr s \<Rightarrow> fromisoformat env s | _ \<Rightarrow> None)"

text \<open>\<^verbatim>\<open>int(v)\<close>: \<open>None\<close> when it raises (ValueError or TypeError).\<close>

definition py_int :: "ambiente \<Rightarrow> json \<Rightarrow> int option" where
  "py_int env v =
     (case v of
        JInt n \<Rightarrow> Some n
      | JBool b \<Rightarrow> Some (if b then 1 else 0)
      | JStr s \<Rightarrow> int_de_str env s
      | _ \<Rightarrow> None)"

text \<open>The number behind a value in \<^verbatim>\<open>v > 2\<close> and \<^verbatim>\<open>v - 2\<close>: a TypeError on a string,
  \<^verbatim>\<open>None\<close> or a list.\<close>

definition py_numero :: "json \<Rightarrow> int option" where
  "py_numero v =
     (case v of
        JInt n \<Rightarrow> Some n
      | JBool b \<Rightarrow> Some (if b then 1 else 0)
      | _ \<Rightarrow> None)"

subsection \<open>The availability check\<close>

text \<open>
  The query of \<open>verificar_quarto_disponivel\<close>: the items of the index
  \<^verbatim>\<open>quarto-data-index\<close> whose key \<^verbatim>\<open>quarto_id\<close> is the room's, filtered by
  \<^verbatim>\<open>status = 'confirmada'\<close>.
\<close>

definition reservas_confirmadas :: "string \<Rightarrow> mundo \<Rightarrow> reserva list" where
  "reservas_confirmadas qid w =
     filter (\<lambda>r. r_quarto_id r = Some qid \<and> r_status r = ''confirmada'') (reservas_table w)"

text \<open>The loop over the fetched items; an item whose dates do not parse raises.\<close>

fun sem_sobreposicao :: "ambiente \<Rightarrow> datetime \<Rightarrow> datetime \<Rightarrow> reserva list \<Rightarrow> excecao + bool" where
  "sem_sobreposicao env checkin_date checkout_date [] = Inr True"
| "sem_sobreposicao env checkin_date checkout_date (r # rs) =
     (case py_fromisoformat env (r_checkin r) of
        None \<Rightarrow> Inl ValueError
      | Some reserva_checkin \<Rightarrow>
          (case py_fromisoformat env (r_checkout r) of
             None \<Rightarrow> Inl ValueError
           | Some reserva_checkout \<Rightarrow>
               if checkin_date < reserva_checkout \<and> checkout_date > reserva_checkin
               then Inr False
               else sem_sobreposicao env checkin_date checkout_date rs))"

definition verificar_quarto_disponivel_try ::
  "ambiente \<Rightarrow> string \<Rightarrow> json \<Rightarrow> json \<Rightarrow> mundo \<Rightarrow> excecao + bool" where
  "verificar_quarto_disponivel_try env qid checkin checkout w =
     (if falha_query_reservas env qid then Inl ClientError
      else case py_fromisoformat env checkin of
        None \<Rightarrow> Inl ValueError
      | Some checkin_date \<Rightarrow>
          (case py_fromisoformat env checkout of
             None \<Rightarrow> Inl ValueError
           | Some checkout_date \<Rightarrow>
               sem_sobreposicao env checkin_date checkout_date (reservas_confirmadas qid w)))"

definition verificar_quarto_disponivel ::
  "ambiente \<Rightarrow> string \<Rightarrow> json \<Rightarrow> json \<Rightarrow> mundo \<Rightarrow> bool" where
  "verificar_quarto_disponivel env qid checkin checkout w =
     (case verificar_quarto_disponivel_try env qid checkin checkout w of
        Inl e \<Rightarrow> False
      | Inr b \<Rightarrow> b)"

text \<open>
  The query of the index \<^verbatim>\<open>tipo-index\<close>: the rooms whose \<^verbatim>\<open>tipo\<close> is the requested
  value, in the order of the table.
\<close>

definition quartos_do_tipo :: "json \<Rightarrow> mundo \<Rightarrow> quarto list" where
  "quartos_do_tipo tipo_quarto w = filter (\<lambda>q. JStr (tipo q) = tipo_quarto) (quartos_table w)"

fun primeiro_quarto_livre ::
  "ambiente \<Rightarrow> json \<Rightarrow> json \<Rightarrow> mundo \<Rightarrow> quarto list \<Rightarrow> string option" where
  "primeiro_quarto_livre env checkin checkout w [] = None"
| "primeiro_quarto_livre env checkin checkout w (q # qs) =
     (if verificar_quarto_disponivel env (quarto_id q) checkin checkout w
      then Some (quarto_id q)
      else primeiro_quarto_livre env checkin checkout w qs)"

text \<open>
  The dictionary returned by \<open>verificar_disponibilidade\<close> is \<open>Some quarto_id\<close> for
  \<^verbatim>\<open>{'disponivel': True, 'quarto_id': ...}\<close> and \<open>None\<close> for \<^verbatim>\<open>{'disponivel': False}\<close>.
\<close>

definition verificar_disponibilidade ::
  "ambiente \<Rightarrow> json \<Rightarrow> json \<Rightarrow> json \<Rightarrow> mundo \<Rightarrow> string option" where
  "verificar_disponibilidade env checkin checkout tipo_quarto w =
     (if falha_query_tipo env then None
      else primeiro_quarto_livre env checkin checkout w (quartos_do_tipo tipo_quarto w))"

definition disponivel :: "string option \<Rightarrow> bool" where
  "disponivel d = (d \<noteq> None)"

subsection \<open>The price\<close>

text \<open>
  Amounts are real numbers: the exact value of the source's floating-point expression.
  \<^verbatim>\<open>Limit=1\<close> keeps the first room of the requested type.
\<close>

definition calcular_valor_reserva_try ::
  "ambiente \<Rightarrow> json \<Rightarrow> json \<Rightarrow> json \<Rightarrow> json \<Rightarrow> mundo \<Rightarrow> excecao + real" where
  "calcular_valor_reserva_try env checkin checkout tipo_quarto num_hospedes w =
     (if falha_query_preco env then Inl ClientError
      else case quartos_do_tipo tipo_quarto w of
        [] \<Rightarrow> Inr 0
      | q # _ \<Rightarrow>
          (case py_fromisoformat env checkin of
             None \<Rightarrow> Inl ValueError
           | Some checkin_date \<Rightarrow>
               (case py_fromisoformat env checkout of
                  None \<Rightarrow> Inl ValueError
                | Some checkout_date \<Rightarrow>
                    (case py_numero num_hospedes of
                       None \<Rightarrow> Inl TypeError
                     | Some n \<Rightarrow>
                         let noites = days (checkout_date - checkin_date);
                             taxa_extra_hospede = (if n > 2 then (n - 2) * 15 else 0)
                         in Inr ((preco_diaria q + of_int taxa_extra_hospede) * of_int noites)))))"

definition calcular_valor_reserva ::
  "ambiente \<Rightarrow> json \<Rightarrow> json \<Rightarrow> json \<Rightarrow> json \<Rightarrow> mundo \<Rightarrow> real" where
  "calcular_valor_reserva env checkin checkout tipo_quarto num_hospedes w =
     (case calcular_valor_reserva_try env checkin checkout tipo_quarto num_hospedes w of
        Inl e \<Rightarrow> 0
      | Inr valor_total \<Rightarrow> valor_total)"

subsection \<open>Writes and side effects\<close>

text \<open>\<^verbatim>\<open>d.get(k, padrao)\<close>.\<close>

definition py_get :: "dados \<Rightarrow> string \<Rightarrow> json \<Rightarrow> json" where
  "py_get d k padrao = (case d k of None \<Rightarrow> padrao | Some v \<Rightarrow> v)"

text \<open>
  \<^verbatim>\<open>put_item\<close> replaces the item that has the same primary key, taken to be
  \<^verbatim>\<open>email\<close> for customers and \<^verbatim>\<open>reserva_id\<close> for reservations.
\<close>

definition put_cliente :: "cliente \<Rightarrow> cliente list \<Rightarrow> cliente list" where
  "put_cliente c cs = filter (\<lambda>x. c_email x \<noteq> c_email c) cs @ [c]"

definition put_reserva :: "reserva \<Rightarrow> reserva list \<Rightarrow> reserva list" where
  "put_reserva r rs = filter (\<lambda>x. reserva_id x \<noteq> reserva_id r) rs @ [r]"

definition criar_ou_atualizar_cliente :: "ambiente \<Rightarrow> dados \<Rightarrow> mundo \<Rightarrow> mundo" where
  "criar_ou_atualizar_cliente env data w =
     (case data ''cliente_email'' of
        None \<Rightarrow> w
      | Some email \<Rightarrow>
          if falha_put_cliente env then w
          else w\<lparr>clientes_table :=
                 put_cliente
                   \<lparr>c_email = email,
                    c_nome = py_get data ''cliente_nome'' (JStr ''''),
                    c_telefone = py_get data ''cliente_telefone'' (JStr ''''),
                    c_ultima_atualizacao = agora env\<rparr>
                   (clientes_table w)\<rparr>)"

text \<open>
  The module defines no function named \<^verbatim>\<open>atualizar_disponibilidade_quarto\<close>,
  \<^verbatim>\<open>listar_reservas\<close> or \<^verbatim>\<open>cancelar_reserva\<close>, and none of its imports (\<^verbatim>\<open>json\<close>,
  \<^verbatim>\<open>boto3\<close>, \<^verbatim>\<open>uuid\<close>, \<^verbatim>\<open>datetime\<close>, \<^verbatim>\<open>decimal\<close>, \<^verbatim>\<open>os\<close>) binds one: a call
  of any of the three raises NameError when the name is looked up.
\<close>

definition atualizar_disponibilidade_quarto ::
  "json \<Rightarrow> json \<Rightarrow> json \<Rightarrow> mundo \<Rightarrow> excecao + mundo" where
  "atualizar_disponibilidade_quarto tipo_quarto checkin checkout w = Inl NameError"

definition listar_reservas :: "dados \<Rightarrow> mundo \<Rightarrow> excecao + resposta \<times> mundo" where
  "listar_reservas pedido w = Inl NameError"

definition cancelar_reserva :: "dados \<Rightarrow> mundo \<Rightarrow> excecao + resposta \<times> mundo" where
  "cancelar_reserva pedido w = Inl NameError"

text \<open>Both senders swallow every exception; an outbox entry is the pair of the
  destination and the reservation's id.\<close>

definition enviar_email_confirmacao :: "ambiente \<Rightarrow> reserva \<Rightarrow> mundo \<Rightarrow> mundo" where
  "enviar_email_confirmacao env reserva w =
     (case from_email env of
        None \<Rightarrow> w
      | Some source \<Rightarrow>
          if falha_ses env then w
          else w\<lparr>emails_enviados :=
                 emails_enviados w @ [(r_cliente_email reserva, reserva_id reserva)]\<rparr>)"

definition enviar_para_fila_bi :: "ambiente \<Rightarrow> reserva \<Rightarrow> mundo \<Rightarrow> mundo" where
  "enviar_para_fila_bi env reserva w =
     (case bi_queue_url env of
        None \<Rightarrow> w
      | Some url \<Rightarrow>
          if falha_sqs env then w
          else w\<lparr>fila_bi := fila_bi w @ [reserva_id reserva]\<rparr>)"

subsection \<open>Creating a reservation\<close>

definition campos_obrigatorios :: "string list" where
  "campos_obrigatorios =
     [''cliente_email'', ''checkin'', ''checkout'', ''tipo_quarto'', ''num_hospedes'']"

definition resposta_sucesso :: "string \<Rightarrow> real \<Rightarrow> resposta" where
  "resposta_sucesso rid valor_total =
     \<lparr>statusCode = 200, headers = headers_cors, body = ReservaCriada rid valor_total\<rparr>"

definition msg_indisponivel :: string where
  "msg_indisponivel = ''Quarto nao disponivel para as datas selecionadas''"

definition msg_erro_processar :: string where
  "msg_erro_processar = ''Erro ao processar reserva''"

text \<open>
  Lines 60 to 74 of \<open>criar_reserva\<close>: the required fields and the availability check.
  \<open>Some\<close> is a return (or an exception) at this point, \<open>None\<close> means the function goes on.
  This part reads the tables and writes nothing.
\<close>

definition criar_reserva_validar ::
  "ambiente \<Rightarrow> dados \<Rightarrow> mundo \<Rightarrow> (excecao + resposta) option" where
  "criar_reserva_validar env data w =
     (case find (\<lambda>campo. data campo = None) campos_obrigatorios of
        Some campo \<Rightarrow> Some (Inr (erro_response (''Campo obrigatorio: '' @ campo)))
      | None \<Rightarrow>
          (case (data ''checkin'', data ''checkout'', data ''tipo_quarto'') of
             (Some checkin, Some checkout, Some tipo_quarto) \<Rightarrow>
               if \<not> disponivel (verificar_disponibilidade env checkin checkout tipo_quarto w)
               then Some (Inr (erro_response msg_indisponivel))
               else None
           | _ \<Rightarrow> Some (Inl KeyError)))"

text \<open>
  Lines 76 to 132: the identifier, the price, the customer, the item written to the
  reservation table (\<open>montar_reserva\<close> is the dictionary of lines 91 to 105, which has no
  \<^verbatim>\<open>quarto_id\<close>), the availability update, the two senders and the success response.
  The world returned with an exception is the world at the point where it was raised:
  nothing is undone.
\<close>

definition montar_reserva ::
  "ambiente \<Rightarrow> dados \<Rightarrow> json \<Rightarrow> json \<Rightarrow> json \<Rightarrow> json \<Rightarrow> int \<Rightarrow> real \<Rightarrow> reserva" where
  "montar_reserva env data email checkin checkout tipo_quarto n valor_total =
     \<lparr>reserva_id = uuid4 env,
      r_quarto_id = None,
      r_cliente_email = email,
      r_cliente_nome = py_get data ''cliente_nome'' (JStr ''''),
      r_cliente_telefone = py_get data ''cliente_telefone'' (JStr ''''),
      r_checkin = checkin,
      r_checkout = checkout,
      r_tipo_quarto = tipo_quarto,
      r_num_hospedes = n,
      r_valor_total = valor_total,
      r_status = ''confirmada'',
      r_data_criacao = agora env,
      r_servicos_extras = py_get data ''servicos_extras'' (JList []),
      r_observacoes = py_get data ''observacoes'' (JStr '''')\<rparr>"

definition criar_reserva_gravar ::
  "ambiente \<Rightarrow> dados \<Rightarrow> mundo \<Rightarrow> (excecao + resposta) \<times> mundo" where
  "criar_reserva_gravar env data w =
     (case (data ''cliente_email'', data ''checkin'', data ''checkout'',
            data ''tipo_quarto'', data ''num_hospedes'') of
        (Some email, Some checkin, Some checkout, Some tipo_quarto, Some num_hospedes) \<Rightarrow>
          let valor_total = calcular_valor_reserva env checkin checkout tipo_quarto num_hospedes w;
              w1 = criar_ou_atualizar_cliente env data w
          in (case py_int env num_hospedes of
                None \<Rightarrow> (Inl ValueError, w1)
              | Some n \<Rightarrow>
                  let reserva =
                        montar_reserva env data email checkin checkout tipo_quarto n valor_total
                  in if falha_put_reserva env then (Inl ClientError, w1)
                     else
                       let w2 = w1\<lparr>reservas_table := put_reserva reserva (reservas_table w1)\<rparr>
                       in (case atualizar_disponibilidade_quarto tipo_quarto checkin checkout w2 of
                             Inl e \<Rightarrow> (Inl e, w2)
                           | Inr w3 \<Rightarrow>
                               let w4 = enviar_email_confirmacao env reserva w3;
                                   w5 = enviar_para_fila_bi env reserva w4
                               in (Inr (resposta_sucesso (uuid4 env) valor_total), w5)))
      | _ \<Rightarrow> (Inl KeyError, w))"

definition criar_reserva_try ::
  "ambiente \<Rightarrow> dados \<Rightarrow> mundo \<Rightarrow> (excecao + resposta) \<times> mundo" where
  "criar_reserva_try env data w =
     (case criar_reserva_validar env data w of
        Some r \<Rightarrow> (r, w)
      | None \<Rightarrow> criar_reserva_gravar env data w)"

text \<open>The \<^verbatim>\<open>except Exception\<close> of \<open>criar_reserva\<close>.\<close>

definition tratar_excecao :: "(excecao + resposta) \<times> mundo \<Rightarrow> resposta \<times> mundo" where
  "tratar_excecao rw =
     (case fst rw of
        Inl e \<Rightarrow> (erro_response msg_erro_processar, snd rw)
      | Inr r \<Rightarrow> (r, snd rw))"

definition criar_reserva :: "ambiente \<Rightarrow> dados \<Rightarrow> mundo \<Rightarrow> resposta \<times> mundo" where
  "criar_reserva env data w = tratar_excecao (criar_reserva_try env data w)"

subsection \<open>Listing the free rooms, and the dispatcher\<close>

definition consultar_disponibilidade :: "ambiente \<Rightarrow> dados \<Rightarrow> mundo \<Rightarrow> resposta" where
  "consultar_disponibilidade env data w =
     (case (data ''checkin'', data ''checkout'') of
        (Some checkin, Some checkout) \<Rightarrow>
          if falha_scan_quartos env then erro_response ''Erro ao consultar disponibilidade''
          else
            let tipo_quarto = py_get data ''tipo_quarto'' (JStr ''todos'');
                quartos_disponiveis =
                  filter
                    (\<lambda>q. \<not> (tipo_quarto \<noteq> JStr ''todos'' \<and> JStr (tipo q) \<noteq> tipo_quarto)
                         \<and> verificar_quarto_disponivel env (quarto_id q) checkin checkout w)
                    (quartos_table w)
            in \<lparr>statusCode = 200, headers = headers_cors,
                body = QuartosDisponiveis quartos_disponiveis (length quartos_disponiveis)\<rparr>
      | _ \<Rightarrow> erro_response ''Erro ao consultar disponibilidade'')"

text \<open>An event either is the request itself or carries it as text under \<^verbatim>\<open>body\<close>;
  the decoded request (the source's variable \<^verbatim>\<open>body\<close>) is \<open>pedido\<close>.\<close>

datatype evento = Direto dados | ComBody string

definition erro_interno :: resposta where
  "erro_interno =
     \<lparr>statusCode = 500, headers = headers_cors, body = Erro ''Erro interno do servidor''\<rparr>"

definition lambda_handler :: "ambiente \<Rightarrow> evento \<Rightarrow> mundo \<Rightarrow> resposta \<times> mundo" where
  "lambda_handler env event w =
     (case (case event of Direto d \<Rightarrow> Some d | ComBody s \<Rightarrow> json_loads env s) of
        None \<Rightarrow> (erro_interno, w)
      | Some pedido \<Rightarrow>
          let action = py_get pedido ''action'' (JStr '''') in
          if action = JStr ''criar_reserva'' then criar_reserva env pedido w
          else if action = JStr ''consultar_disponibilidade''
            then (consultar_disponibilidade env pedido w, w)
          else if action = JStr ''listar_reservas''
            then (case listar_reservas pedido w of Inl e \<Rightarrow> (erro_interno, w) | Inr rw \<Rightarrow> rw)
          else if action = JStr ''cancelar_reserva''
            then (case cancelar_reserva pedido w of Inl e \<Rightarrow> (erro_interno, w) | Inr rw \<Rightarrow> rw)
          else (\<lparr>statusCode = 400, headers = headers_cors, body = Erro ''Acao nao reconhecida''\<rparr>, w))"

subsection \<open>Requests one after another, and two requests interleaved\<close>

text \<open>Invocations of the handler one at a time, each with its own environment.\<close>

fun executar :: "(ambiente \<times> evento) list \<Rightarrow> mundo \<Rightarrow> mundo" where
  "executar [] w = w"
| "executar ((env, event) # rest) w = executar rest (snd (lambda_handler env event w))"

text \<open>
  Two invocations of \<open>criar_reserva\<close> running at the same time share only the tables.
  An invocation is at its start, or past the availability check (line 74), or has
  returned; a step of an invocation runs it up to the next of these points, so the reads
  of the check and the writes after it are each taken as one step. A schedule says
  which of the two invocations moves next (\<open>False\<close> the first, \<open>True\<close> the second).
\<close>

datatype processo =
    Inicio ambiente dados
  | Verificado ambiente dados
  | Terminado resposta

fun passo :: "processo \<Rightarrow> mundo \<Rightarrow> processo \<times> mundo" where
  "passo (Inicio env data) w =
     (case criar_reserva_validar env data w of
        Some r \<Rightarrow> (Terminado (fst (tratar_excecao (r, w))), w)
      | None \<Rightarrow> (Verificado env data, w))"
| "passo (Verificado env data) w =
     (case tratar_excecao (criar_reserva_gravar env data w) of
        (r, w') \<Rightarrow> (Terminado r, w'))"
| "passo (Terminado r) w = (Terminado r, w)"

fun escalonar :: "bool list \<Rightarrow> processo \<times> processo \<times> mundo \<Rightarrow> processo \<times> processo \<times> mundo" where
  "escalonar [] s = s"
| "escalonar (segundo # resto) (p1, p2, w) =
     (if segundo
      then (case passo p2 w of (p2', w') \<Rightarrow> escalonar resto (p1, p2', w'))
      else (case passo p1 w of (p1', w') \<Rightarrow> escalonar resto (p1', p2, w')))"

subsection \<open>The intervals of the ledger\<close>

text \<open>The half-open interval of a reservation, when both of its dates parse.\<close>

definition intervalo :: "ambiente \<Rightarrow> reserva \<Rightarrow> (datetime \<times> datetime) option" where
  "intervalo env r =
     (case py_fromisoformat env (r_checkin r) of
        None \<Rightarrow> None
      | Some c \<Rightarrow>
          (case py_fromisoformat env (r_checkout r) of
             None \<Rightarrow> None
           | Some d \<Rightarrow> Some (c, d)))"

text \<open>Whether the interval \<open>[a, b)\<close> overlaps the interval of a reservation.\<close>

definition sobrepoe :: "ambiente \<Rightarrow> datetime \<Rightarrow> datetime \<Rightarrow> reserva \<Rightarrow> bool" where
  "sobrepoe env a b r =
     (case intervalo env r of
        None \<Rightarrow> False
      | Some cd \<Rightarrow> a < snd cd \<and> b > fst cd)"

text \<open>
  Two confirmed reservations of one room type whose intervals overlap. With a single
  room of that type in the catalogue they are on the same physical room.
\<close>

definition em_conflito :: "ambiente \<Rightarrow> reserva \<Rightarrow> reserva \<Rightarrow> bool" where
  "em_conflito env r s =
     (r_status r = ''confirmada'' \<and> r_status s = ''confirmada''
      \<and> r_tipo_quarto r = r_tipo_quarto s
      \<and> (case intervalo env r of
           None \<Rightarrow> False
         | Some ab \<Rightarrow> sobrepoe env (fst ab) (snd ab) s))"

fun tem_conflito :: "ambiente \<Rightarrow> reserva list \<Rightarrow> bool" where
  "tem_conflito env [] = False"
| "tem_conflito env (r # rs) = (list_ex (em_conflito env r) rs \<or> tem_conflito env rs)"

subsection \<open>A concrete hostel\<close>

text \<open>
  The date-only form \<^verbatim>\<open>YYYY-MM-DD\<close> of \<^verbatim>\<open>datetime.fromisoformat\<close>: midnight of that
  day, counted from the proleptic Gregorian ordinal as \<^verbatim>\<open>date.toordinal\<close> does.
\<close>

definition digito :: "char \<Rightarrow> nat option" where
  "digito c =
     (if 48 \<le> (of_char c :: nat) \<and> (of_char c :: nat) \<le> 57
      then Some (of_char c - 48) else None)"

fun digitos :: "nat \<Rightarrow> string \<Rightarrow> nat option" where
  "digitos acc [] = Some acc"
| "digitos acc (c # cs) =
     (case digito c of None \<Rightarrow> None | Some d \<Rightarrow> digitos (10 * acc + d) cs)"

definition bissexto :: "nat \<Rightarrow> bool" where
  "bissexto y = (y mod 4 = 0 \<and> (if y mod 100 = 0 then y mod 400 = 0 else True))"

definition dias_no_mes :: "nat \<Rightarrow> nat \<Rightarrow> nat" where
  "dias_no_mes y m =
     (if m = 2 then (if bissexto y then 29 else 28)
      else if m = 4 \<or> m = 6 \<or> m = 9 \<or> m = 11 then 30 else 31)"

definition dias_antes_do_mes :: "nat \<Rightarrow> nat \<Rightarrow> nat" where
  "dias_antes_do_mes y m =
     [0, 31, 59, 90, 120, 151, 181, 212, 243, 273, 304, 334] ! (m - 1)
     + (if m > 2 \<and> bissexto y then 1 else 0)"

definition dias_antes_do_ano :: "nat \<Rightarrow> nat" where
  "dias_antes_do_ano y = (y - 1) * 365 + (y - 1) div 4 - (y - 1) div 100 + (y - 1) div 400"

definition iso_data :: "string \<Rightarrow> datetime option" where
  "iso_data s =
     (if length s = 10 \<and> s ! 4 = CHR ''-'' \<and> s ! 7 = CHR ''-'' then
        (case digitos 0 (take 4 s) of
           None \<Rightarrow> None
         | Some y \<Rightarrow>
             (case digitos 0 (take 2 (drop 5 s)) of
                None \<Rightarrow> None
              | Some m \<Rightarrow>
                  (case digitos 0 (drop 8 s) of
                     None \<Rightarrow> None
                   | Some d \<Rightarrow>
                       if 1 \<le> y \<and> 1 \<le> m \<and> m \<le> 12 \<and> 1 \<le> d \<and> d \<le> dias_no_mes y m
                       then Some (int (dias_antes_do_ano y + dias_antes_do_mes y m + d) * um_dia)
                       else None)))
      else None)"

text \<open>An environment in which no AWS call fails, and a hostel with one double room.\<close>

definition env_exemplo :: "string \<Rightarrow> ambiente" where
  "env_exemplo rid =
     \<lparr>fromisoformat = iso_data,
      int_de_str = (\<lambda>s. None),
      json_loads = (\<lambda>s. None),
      uuid4 = rid,
      agora = ''2024-01-01T12:00:00'',
      from_email = Some ''reservas@hostal.example'',
      bi_queue_url = Some ''https://sqs.example/bi'',
      falha_query_tipo = False,
      falha_query_preco = False,
      falha_scan_quartos = False,
      falha_query_reservas = (\<lambda>q. False),
      falha_put_cliente = False,
      falha_put_reserva = False,
      falha_ses = False,
      falha_sqs = False\<rparr>"

definition quarto_duplo :: quarto where
  "quarto_duplo = \<lparr>quarto_id = ''q1'', tipo = ''duplo'', capacidade = 2, preco_diaria = 50\<rparr>"

definition mundo_vazio :: mundo where
  "mundo_vazio =
     \<lparr>quartos_table = [quarto_duplo], reservas_table = [], clientes_table = [],
      emails_enviados = [], fila_bi = []\<rparr>"

text \<open>A request to create a reservation, and a request to cancel one.\<close>

definition pedido_exemplo :: "string \<Rightarrow> string \<Rightarrow> string \<Rightarrow> string \<Rightarrow> int \<Rightarrow> dados" where
  "pedido_exemplo email tipo_quarto checkin checkout n =
     [''action'' \<mapsto> JStr ''criar_reserva'',
      ''cliente_email'' \<mapsto> JStr email,
      ''checkin'' \<mapsto> JStr checkin,
      ''checkout'' \<mapsto> JStr checkout,
      ''tipo_quarto'' \<mapsto> JStr tipo_quarto,
      ''num_hospedes'' \<mapsto> JInt n]"

definition pedido_cancelar :: "string \<Rightarrow> dados" where
  "pedido_cancelar rid =
     [''action'' \<mapsto> JStr ''cancelar_reserva'', ''reserva_id'' \<mapsto> JStr rid]"

text \<open>An item that is attributed to room \<open>q1\<close>, as the index of the check expects.\<close>

definition reserva_no_quarto :: "string \<Rightarrow> string \<Rightarrow> string \<Rightarrow> string \<Rightarrow> reserva" where
  "reserva_no_quarto rid checkin checkout estado =
     \<lparr>reserva_id = rid,
      r_quarto_id = Some ''q1'',
      r_cliente_email = JStr ''ana@example.com'',
      r_cliente_nome = JStr ''Ana'',
      r_cliente_telefone = JStr '''',
      r_checkin = JStr checkin,
      r_checkout = JStr checkout,
      r_tipo_quarto = JStr ''duplo'',
      r_num_hospedes = 2,
      r_valor_total = 250,
      r_status = estado,
      r_data_criacao = ''2023-12-01T09:00:00'',
      r_servicos_extras = JList [],
      r_observacoes = JStr ''''\<rparr>"

definition mundo_ocupado :: mundo where
  "mundo_ocupado =
     mundo_vazio\<lparr>reservas_table :=
       [reserva_no_quarto ''r0'' ''2024-01-10'' ''2024-01-15'' ''confirmada'']\<rparr>"

text \<open>
  Two invocations for the same room type and the same dates, in a hostel with a single
  room of that type; and what it means that both ended with the generic error and both
  of their reservations are in the table, confirmed and in conflict.
\<close>

definition duas_invocacoes :: "processo \<times> processo \<times> mundo" where
  "duas_invocacoes =
     (Inicio (env_exemplo ''r1'')
        (pedido_exemplo ''ana@example.com'' ''duplo'' ''2024-01-10'' ''2024-01-15'' 2),
      Inicio (env_exemplo ''r2'')
        (pedido_exemplo ''rui@example.com'' ''duplo'' ''2024-01-10'' ''2024-01-15'' 2),
      mundo_vazio)"

definition ambas_gravadas :: "processo \<times> processo \<times> mundo \<Rightarrow> bool" where
  "ambas_gravadas s =
     (fst s = Terminado (erro_response msg_erro_processar)
      \<and> fst (snd s) = Terminado (erro_response msg_erro_processar)
      \<and> map r_status (reservas_table (snd (snd s))) = [''confirmada'', ''confirmada'']
      \<and> tem_conflito (env_exemplo ''r1'') (reservas_table (snd (snd s))))"

section \<open>Properties\<close>

subsection \<open>Evaluating the concrete hostel\<close>

lemmas avaliar_data =
  iso_data_def digito_def dias_no_mes_def bissexto_def dias_antes_do_mes_def
  dias_antes_do_ano_def um_dia_def

lemma datas_exemplo:
  "iso_data ''2024-01-10'' = Some 63840528000000000"
  "iso_data ''2024-01-13'' = Some 63840787200000000"
  "iso_data ''2024-01-14'' = Some 63840873600000000"
  "iso_data ''2024-01-15'' = Some 63840960000000000"
  "iso_data ''2024-01-16'' = Some 63841046400000000"
  "iso_data ''2024-01-18'' = Some 63841219200000000"
  by (simp_all add: avaliar_data)

lemma iso_data_ilegivel: "iso_data ''amanha'' = None"
  by (simp add: iso_data_def)

subsection \<open>Overlap detection\<close>

lemma intervalo_Some:
  "intervalo env r = Some (c, d) \<longleftrightarrow>
     py_fromisoformat env (r_checkin r) = Some c \<and> py_fromisoformat env (r_checkout r) = Some d"
  by (auto simp: intervalo_def split: option.splits)

lemma sobrepoe_iff:
  "sobrepoe env a b r \<longleftrightarrow> (\<exists>c d. intervalo env r = Some (c, d) \<and> a < d \<and> b > c)"
  by (auto simp: sobrepoe_def split: option.splits)

lemma sem_sobreposicao_todas_legiveis:
  "list_all (\<lambda>r. intervalo env r \<noteq> None) rs \<Longrightarrow>
     sem_sobreposicao env a b rs = Inr (\<not> list_ex (sobrepoe env a b) rs)"
  by (induction rs) (auto simp: intervalo_def sobrepoe_def split: option.splits)

text \<open>
  Claim C2. When the query succeeds and the dates parse, with \<open>[a, b)\<close> the requested
  interval, \<open>verificar_quarto_disponivel\<close> reports the room unavailable exactly when
  some confirmed reservation fetched for the room has an interval \<open>[c, d)\<close> with
  \<open>a < d\<close> and \<open>b > c\<close>: false at an overlap, true when there is none. A request whose
  check-in is the check-out of an existing reservation is therefore available.
\<close>

theorem verificar_quarto_disponivel_meio_aberto:
  assumes "\<not> falha_query_reservas env qid"
    and "py_fromisoformat env checkin = Some a"
    and "py_fromisoformat env checkout = Some b"
    and "list_all (\<lambda>r. intervalo env r \<noteq> None) (reservas_confirmadas qid w)"
  shows "verificar_quarto_disponivel env qid checkin checkout w =
           (\<not> list_ex (\<lambda>r. \<exists>c d. intervalo env r = Some (c, d) \<and> a < d \<and> b > c)
                 (reservas_confirmadas qid w))"
proof -
  have "verificar_quarto_disponivel_try env qid checkin checkout w =
          Inr (\<not> list_ex (sobrepoe env a b) (reservas_confirmadas qid w))"
    using assms by (simp add: verificar_quarto_disponivel_try_def sem_sobreposicao_todas_legiveis)
  then show ?thesis
    by (simp add: verificar_quarto_disponivel_def sobrepoe_iff [abs_def])
qed

text \<open>
  The two cases of the specification: room \<open>q1\<close> is booked for
  \<open>[2024-01-10, 2024-01-15)\<close>; a request for \<open>[2024-01-14, 2024-01-16)\<close> is refused and
  the back-to-back request for \<open>[2024-01-15, 2024-01-18)\<close> is accepted.
\<close>

theorem verificar_quarto_disponivel_meio_aberto_witness:
  "\<not> verificar_quarto_disponivel (env_exemplo ''r1'') ''q1''
       (JStr ''2024-01-14'') (JStr ''2024-01-16'') mundo_ocupado
   \<and> verificar_quarto_disponivel (env_exemplo ''r1'') ''q1''
       (JStr ''2024-01-15'') (JStr ''2024-01-18'') mundo_ocupado"
proof -
  have conf: "reservas_confirmadas ''q1'' mundo_ocupado =
      [reserva_no_quarto ''r0'' ''2024-01-10'' ''2024-01-15'' ''confirmada'']"
    by (simp add: reservas_confirmadas_def mundo_ocupado_def mundo_vazio_def reserva_no_quarto_def)
  have iv: "intervalo (env_exemplo ''r1'')
        (reserva_no_quarto ''r0'' ''2024-01-10'' ''2024-01-15'' ''confirmada'')
      = Some (63840528000000000, 63840960000000000)"
    by (simp add: intervalo_def reserva_no_quarto_def py_fromisoformat_def env_exemplo_def
        datas_exemplo)
  have f: "\<not> falha_query_reservas (env_exemplo ''r1'') ''q1''"
    by (simp add: env_exemplo_def)
  have p: "py_fromisoformat (env_exemplo ''r1'') (JStr ''2024-01-14'') = Some 63840873600000000"
    "py_fromisoformat (env_exemplo ''r1'') (JStr ''2024-01-16'') = Some 63841046400000000"
    "py_fromisoformat (env_exemplo ''r1'') (JStr ''2024-01-15'') = Some 63840960000000000"
    "py_fromisoformat (env_exemplo ''r1'') (JStr ''2024-01-18'') = Some 63841219200000000"
    by (simp_all add: py_fromisoformat_def env_exemplo_def datas_exemplo)
  have l: "list_all (\<lambda>r. intervalo (env_exemplo ''r1'') r \<noteq> None)
      (reservas_confirmadas ''q1'' mundo_ocupado)"
    by (simp add: conf iv)
  show ?thesis
    using verificar_quarto_disponivel_meio_aberto [OF f p(1) p(2) l]
      verificar_quarto_disponivel_meio_aberto [OF f p(3) p(4) l]
    by (simp add: conf iv)
qed

text \<open>The check of a room type: some room of the type passes the check of a room.\<close>

lemma primeiro_quarto_livre_None:
  "primeiro_quarto_livre env checkin checkout w qs = None \<longleftrightarrow>
     list_all (\<lambda>q. \<not> verificar_quarto_disponivel env (quarto_id q) checkin checkout w) qs"
  by (induction qs) simp_all

lemma verificar_disponibilidade_iff:
  "\<not> falha_query_tipo env \<Longrightarrow>
     disponivel (verificar_disponibilidade env checkin checkout tipo_quarto w) \<longleftrightarrow>
       list_ex (\<lambda>q. verificar_quarto_disponivel env (quarto_id q) checkin checkout w)
         (quartos_do_tipo tipo_quarto w)"
  by (simp add: verificar_disponibilidade_def disponivel_def primeiro_quarto_livre_None
      list_all_iff list_ex_iff)

subsection \<open>The price formula\<close>

lemma py_fromisoformat_exemplo:
  "py_fromisoformat (env_exemplo rid) (JStr s) = iso_data s"
  by (simp add: py_fromisoformat_def env_exemplo_def)

lemma quartos_do_tipo_duplo:
  "quartos_do_tipo (JStr ''duplo'') (mundo_vazio\<lparr>reservas_table := rs\<rparr>) = [quarto_duplo]"
  "quartos_do_tipo (JStr ''duplo'') mundo_vazio = [quarto_duplo]"
  by (simp_all add: quartos_do_tipo_def mundo_vazio_def quarto_duplo_def)

text \<open>
  Claim C5. When the price query succeeds, the first room of the requested type has the
  nightly rate \<open>R\<close>, the dates parse to \<open>a\<close> and \<open>b\<close>, and the guest count is the integer
  \<open>g\<close>, the total is \<open>(R + max 0 (g - 2) * 15) * nights\<close>, where \<open>nights\<close> is the
  difference \<open>b - a\<close> in whole days.
\<close>

theorem calcular_valor_reserva_formula:
  assumes "\<not> falha_query_preco env"
    and "quartos_do_tipo tipo_quarto w = q # qs"
    and "py_fromisoformat env checkin = Some a"
    and "py_fromisoformat env checkout = Some b"
  shows "calcular_valor_reserva env checkin checkout tipo_quarto (JInt g) w =
           (preco_diaria q + real_of_int (max 0 (g - 2) * 15)) * real_of_int ((b - a) div um_dia)"
  using assms
  by (simp add: calcular_valor_reserva_def calcular_valor_reserva_try_def py_numero_def
      days_def Let_def max_def)

text \<open>Rate 50 and three nights: 150 for two guests, 240 for four.\<close>

theorem calcular_valor_reserva_formula_witness:
  "calcular_valor_reserva (env_exemplo ''r1'') (JStr ''2024-01-10'') (JStr ''2024-01-13'')
       (JStr ''duplo'') (JInt 2) mundo_vazio = 150
   \<and> calcular_valor_reserva (env_exemplo ''r1'') (JStr ''2024-01-10'') (JStr ''2024-01-13'')
       (JStr ''duplo'') (JInt 4) mundo_vazio = 240"
proof -
  have f: "\<not> falha_query_preco (env_exemplo ''r1'')"
    by (simp add: env_exemplo_def)
  have q: "quartos_do_tipo (JStr ''duplo'') mundo_vazio = quarto_duplo # []"
    by (simp add: quartos_do_tipo_duplo)
  have a: "py_fromisoformat (env_exemplo ''r1'') (JStr ''2024-01-10'') = Some 63840528000000000"
    by (simp add: py_fromisoformat_exemplo datas_exemplo)
  have b: "py_fromisoformat (env_exemplo ''r1'') (JStr ''2024-01-13'') = Some 63840787200000000"
    by (simp add: py_fromisoformat_exemplo datas_exemplo)
  have r: "preco_diaria quarto_duplo = 50"
    by (simp add: quarto_duplo_def)
  show ?thesis
    using calcular_valor_reserva_formula [OF f q a b, of 2]
      calcular_valor_reserva_formula [OF f q a b, of 4]
    by (simp add: r um_dia_def)
qed

subsection \<open>The two parts of \<open>criar_reserva\<close>\<close>

lemma find_campos_presentes:
  assumes "data ''cliente_email'' = Some email"
    and "data ''checkin'' = Some checkin"
    and "data ''checkout'' = Some checkout"
    and "data ''tipo_quarto'' = Some tipo_quarto"
    and "data ''num_hospedes'' = Some num_hospedes"
  shows "find (\<lambda>campo. data campo = None) campos_obrigatorios = None"
  using assms by (simp add: campos_obrigatorios_def)

lemma criar_reserva_validar_campos:
  assumes "data ''cliente_email'' = Some email"
    and "data ''checkin'' = Some checkin"
    and "data ''checkout'' = Some checkout"
    and "data ''tipo_quarto'' = Some tipo_quarto"
    and "data ''num_hospedes'' = Some num_hospedes"
  shows "criar_reserva_validar env data w =
           (if disponivel (verificar_disponibilidade env checkin checkout tipo_quarto w)
            then None else Some (Inr (erro_response msg_indisponivel)))"
  using assms by (simp add: criar_reserva_validar_def find_campos_presentes [OF assms])

lemma reservas_table_cliente [simp]:
  "reservas_table (criar_ou_atualizar_cliente env data w) = reservas_table w"
  by (simp add: criar_ou_atualizar_cliente_def split: option.splits)

lemma criar_reserva_gravar_campos:
  assumes "data ''cliente_email'' = Some email"
    and "data ''checkin'' = Some checkin"
    and "data ''checkout'' = Some checkout"
    and "data ''tipo_quarto'' = Some tipo_quarto"
    and "data ''num_hospedes'' = Some num_hospedes"
    and "py_int env num_hospedes = Some n"
    and "\<not> falha_put_reserva env"
  shows "criar_reserva_gravar env data w =
           (Inl NameError,
            (criar_ou_atualizar_cliente env data w)
              \<lparr>reservas_table :=
                 put_reserva
                   (montar_reserva env data email checkin checkout tipo_quarto n
                      (calcular_valor_reserva env checkin checkout tipo_quarto num_hospedes w))
                   (reservas_table w)\<rparr>)"
  using assms
  by (simp add: criar_reserva_gravar_def atualizar_disponibilidade_quarto_def Let_def)

lemma criar_reserva_rejeitada:
  assumes "criar_reserva_validar env data w = Some (Inr r)"
  shows "criar_reserva env data w = (r, w)"
  using assms by (simp add: criar_reserva_def criar_reserva_try_def tratar_excecao_def)

lemma criar_reserva_aceite:
  assumes "criar_reserva_validar env data w = None"
  shows "criar_reserva env data w = tratar_excecao (criar_reserva_gravar env data w)"
  using assms by (simp add: criar_reserva_def criar_reserva_try_def)

text \<open>
  The second part always ends in an exception: at the latest, the call of the undefined
  \<open>atualizar_disponibilidade_quarto\<close> raises. So no call of \<open>criar_reserva\<close> answers
  with status 200.
\<close>

lemma criar_reserva_gravar_excecao:
  "\<exists>e. fst (criar_reserva_gravar env data w) = Inl e"
  by (auto simp: criar_reserva_gravar_def atualizar_disponibilidade_quarto_def Let_def
      split: option.splits)

lemma criar_reserva_status_400: "statusCode (fst (criar_reserva env data w)) = 400"
proof (cases "criar_reserva_validar env data w")
  case None
  obtain e where "fst (criar_reserva_gravar env data w) = Inl e"
    using criar_reserva_gravar_excecao by blast
  then show ?thesis
    by (simp add: criar_reserva_aceite [OF None] tratar_excecao_def erro_response_def)
next
  case (Some r)
  then show ?thesis
    by (cases r)
      (auto simp: criar_reserva_def criar_reserva_try_def tratar_excecao_def erro_response_def
        criar_reserva_validar_def split: option.splits if_splits)
qed

text \<open>One invocation stepped twice is \<open>criar_reserva\<close>.\<close>

lemma passo_duas_vezes:
  "passo (fst (passo (Inicio env data) w)) (snd (passo (Inicio env data) w)) =
     (Terminado (fst (criar_reserva env data w)), snd (criar_reserva env data w))"
  by (cases "criar_reserva_validar env data w")
    (simp_all add: criar_reserva_def criar_reserva_try_def tratar_excecao_def
      split: sum.splits prod.splits)

subsection \<open>Evaluating requests in the concrete hostel\<close>

lemmas avaliar =
  env_exemplo_def mundo_vazio_def quarto_duplo_def pedido_exemplo_def reserva_no_quarto_def
  mundo_ocupado_def criar_reserva_def criar_reserva_try_def criar_reserva_validar_def
  criar_reserva_gravar_def tratar_excecao_def campos_obrigatorios_def
  verificar_disponibilidade_def disponivel_def quartos_do_tipo_def
  verificar_quarto_disponivel_def verificar_quarto_disponivel_try_def
  reservas_confirmadas_def py_fromisoformat_def datas_exemplo iso_data_ilegivel
  calcular_valor_reserva_def calcular_valor_reserva_try_def py_numero_def py_int_def
  days_def um_dia_def criar_ou_atualizar_cliente_def put_cliente_def put_reserva_def
  montar_reserva_def py_get_def atualizar_disponibilidade_quarto_def Let_def
  erro_response_def msg_erro_processar_def msg_indisponivel_def

lemmas avaliar_conflito = intervalo_def sobrepoe_def em_conflito_def

subsection \<open>Overlapping reservations, one request after another\<close>

text \<open>
  The item that \<open>criar_reserva\<close> writes is never among the items the check of a room
  fetches: the write only removes from them an older item with the same identifier.
\<close>

lemma reservas_confirmadas_apos_put:
  "reservas_confirmadas qid
     (w\<lparr>reservas_table :=
          put_reserva (montar_reserva env data email checkin checkout tipo_quarto n valor)
            (reservas_table w)\<rparr>)
   = filter (\<lambda>x. reserva_id x \<noteq> uuid4 env) (reservas_confirmadas qid w)"
  by (auto simp: reservas_confirmadas_def put_reserva_def montar_reserva_def
      intro: filter_cong)

text \<open>
  Claim C1 does not hold of the code. The hostel has one double room and no
  reservation. A request for \<open>[2024-01-10, 2024-01-15)\<close> and then a request for
  \<open>[2024-01-14, 2024-01-16)\<close>, handled one after the other, both pass the availability
  check and both are written as confirmed: the item that \<open>criar_reserva\<close> writes has no
  \<^verbatim>\<open>quarto_id\<close>, so the query of \<open>verificar_quarto_disponivel\<close> never returns it. The
  table then holds two confirmed reservations of the one room with overlapping
  intervals.
\<close>

theorem reservas_sobrepostas_em_sequencia:
  "quartos_do_tipo (JStr ''duplo'') mundo_vazio = [quarto_duplo]
   \<and> map (\<lambda>r. (reserva_id r, r_tipo_quarto r, r_checkin r, r_checkout r, r_status r))
        (reservas_table
          (executar
            [(env_exemplo ''r1'',
              Direto (pedido_exemplo ''ana@example.com'' ''duplo'' ''2024-01-10'' ''2024-01-15'' 2)),
             (env_exemplo ''r2'',
              Direto (pedido_exemplo ''rui@example.com'' ''duplo'' ''2024-01-14'' ''2024-01-16'' 2))]
            mundo_vazio))
      = [(''r1'', JStr ''duplo'', JStr ''2024-01-10'', JStr ''2024-01-15'', ''confirmada''),
         (''r2'', JStr ''duplo'', JStr ''2024-01-14'', JStr ''2024-01-16'', ''confirmada'')]
   \<and> tem_conflito (env_exemplo ''r1'')
        (reservas_table
          (executar
            [(env_exemplo ''r1'',
              Direto (pedido_exemplo ''ana@example.com'' ''duplo'' ''2024-01-10'' ''2024-01-15'' 2)),
             (env_exemplo ''r2'',
              Direto (pedido_exemplo ''rui@example.com'' ''duplo'' ''2024-01-14'' ''2024-01-16'' 2))]
            mundo_vazio))"
  by (simp add: avaliar avaliar_conflito lambda_handler_def)

subsection \<open>Two requests at the same time\<close>

lemma ordem_FFTT: "ambas_gravadas (escalonar [False, False, True, True] duas_invocacoes)"
  by (simp add: avaliar avaliar_conflito duas_invocacoes_def ambas_gravadas_def)

lemma ordem_FTFT: "ambas_gravadas (escalonar [False, True, False, True] duas_invocacoes)"
  by (simp add: avaliar avaliar_conflito duas_invocacoes_def ambas_gravadas_def)

lemma ordem_FTTF: "ambas_gravadas (escalonar [False, True, True, False] duas_invocacoes)"
  by (simp add: avaliar avaliar_conflito duas_invocacoes_def ambas_gravadas_def)

lemma ordem_TFFT: "ambas_gravadas (escalonar [True, False, False, True] duas_invocacoes)"
  by (simp add: avaliar avaliar_conflito duas_invocacoes_def ambas_gravadas_def)

lemma ordem_TFTF: "ambas_gravadas (escalonar [True, False, True, False] duas_invocacoes)"
  by (simp add: avaliar avaliar_conflito duas_invocacoes_def ambas_gravadas_def)

lemma ordem_TTFF: "ambas_gravadas (escalonar [True, True, False, False] duas_invocacoes)"
  by (simp add: avaliar avaliar_conflito duas_invocacoes_def ambas_gravadas_def)

text \<open>
  Claim C3 does not hold of the code. Two invocations ask for the only double room for
  the same dates. In each of the six orders in which their two steps can be interleaved
  (the two serial orders included), both invocations end with the generic error
  response, which is not the room-unavailable response, and both reservations are in
  the table as confirmed, in conflict with each other. No order rejects one of them as
  unavailable.
\<close>

theorem duas_invocacoes_ambas_gravadas:
  "quartos_do_tipo (JStr ''duplo'') mundo_vazio = [quarto_duplo]
   \<and> erro_response msg_erro_processar \<noteq> erro_response msg_indisponivel
   \<and> list_all (\<lambda>ordem. ambas_gravadas (escalonar ordem duas_invocacoes))
        [[False, False, True, True], [False, True, False, True], [False, True, True, False],
         [True, False, False, True], [True, False, True, False], [True, True, False, False]]"
  by (simp add: ordem_FFTT ordem_FTFT ordem_FTTF ordem_TFFT ordem_TFTF ordem_TTFF
      quartos_do_tipo_duplo erro_response_def msg_erro_processar_def msg_indisponivel_def)

subsection \<open>Cancellation\<close>

lemma lambda_handler_cancelar:
  "pedido ''action'' = Some (JStr ''cancelar_reserva'') \<Longrightarrow>
     lambda_handler env (Direto pedido) w = (erro_interno, w)"
  by (simp add: lambda_handler_def py_get_def cancelar_reserva_def)

text \<open>
  Claim C6 does not hold of the code. The dispatcher routes the action
  \<^verbatim>\<open>cancelar_reserva\<close> to a function the module never defines, so cancelling the
  confirmed reservation \<open>r0\<close> answers with status 500 and the generic server error, and
  the reservation stays confirmed.
\<close>

theorem cancelar_reserva_erro_interno:
  "lambda_handler (env_exemplo ''r1'') (Direto (pedido_cancelar ''r0'')) mundo_ocupado
     = (erro_interno, mundo_ocupado)
   \<and> statusCode erro_interno = 500
   \<and> map (\<lambda>r. (reserva_id r, r_status r)) (reservas_table mundo_ocupado)
       = [(''r0'', ''confirmada'')]"
  by (simp add: lambda_handler_def py_get_def cancelar_reserva_def pedido_cancelar_def
      erro_interno_def mundo_ocupado_def reserva_no_quarto_def)

subsection \<open>The response after a successful write\<close>

text \<open>The two senders return normally whatever fails in them, and leave the tables alone.\<close>

lemma senders_deixam_reservas:
  "reservas_table (enviar_email_confirmacao env r w) = reservas_table w"
  "reservas_table (enviar_para_fila_bi env r w) = reservas_table w"
  by (simp_all add: enviar_email_confirmacao_def enviar_para_fila_bi_def split: option.splits)

text \<open>
  Claim C7 does not hold of the code. For a request with every field, that passes the
  availability check and whose reservation is written (price 150, status confirmed),
  the response is the generic error and not the success response with the identifier
  and the price: the call of the undefined \<open>atualizar_disponibilidade_quarto\<close> raises
  between the write and the lines that send the notifications and build the success
  response.
\<close>

theorem criar_reserva_sem_resposta_de_sucesso:
  "criar_reserva_validar (env_exemplo ''r1'')
       (pedido_exemplo ''ana@example.com'' ''duplo'' ''2024-01-10'' ''2024-01-13'' 2)
       mundo_vazio = None
   \<and> fst (criar_reserva (env_exemplo ''r1'')
            (pedido_exemplo ''ana@example.com'' ''duplo'' ''2024-01-10'' ''2024-01-13'' 2)
            mundo_vazio) = erro_response msg_erro_processar
   \<and> erro_response msg_erro_processar \<noteq> resposta_sucesso ''r1'' 150
   \<and> map (\<lambda>r. (reserva_id r, r_status r, r_valor_total r))
        (reservas_table (snd (criar_reserva (env_exemplo ''r1'')
            (pedido_exemplo ''ana@example.com'' ''duplo'' ''2024-01-10'' ''2024-01-13'' 2)
            mundo_vazio)))
      = [(''r1'', ''confirmada'', 150)]"
  by (simp add: avaliar resposta_sucesso_def)

subsection \<open>An error response after the write\<close>

lemma pedido_exemplo_campos:
  "pedido_exemplo email tq ci co n ''cliente_email'' = Some (JStr email)"
  "pedido_exemplo email tq ci co n ''checkin'' = Some (JStr ci)"
  "pedido_exemplo email tq ci co n ''checkout'' = Some (JStr co)"
  "pedido_exemplo email tq ci co n ''tipo_quarto'' = Some (JStr tq)"
  "pedido_exemplo email tq ci co n ''num_hospedes'' = Some (JInt n)"
  by (simp_all add: pedido_exemplo_def)

text \<open>
  Claim C10. For a request with every required field that passes the availability
  check, whose guest count converts to an integer and whose \<^verbatim>\<open>put_item\<close> succeeds, the
  response is the generic error while the reservation table has already received the new
  item, with status confirmed: the exception raised after the write (by the
  availability update) is turned into an error response and nothing is undone.
\<close>

theorem criar_reserva_erro_apos_gravar:
  assumes "data ''cliente_email'' = Some email"
    and "data ''checkin'' = Some checkin"
    and "data ''checkout'' = Some checkout"
    and "data ''tipo_quarto'' = Some tipo_quarto"
    and "data ''num_hospedes'' = Some num_hospedes"
    and "disponivel (verificar_disponibilidade env checkin checkout tipo_quarto w)"
    and "py_int env num_hospedes = Some n"
    and "\<not> falha_put_reserva env"
  shows "fst (criar_reserva env data w) = erro_response msg_erro_processar
     \<and> reservas_table (snd (criar_reserva env data w)) =
         filter (\<lambda>x. reserva_id x \<noteq> uuid4 env) (reservas_table w)
         @ [montar_reserva env data email checkin checkout tipo_quarto n
              (calcular_valor_reserva env checkin checkout tipo_quarto num_hospedes w)]
     \<and> r_status (last (reservas_table (snd (criar_reserva env data w)))) = ''confirmada''"
proof -
  have v: "criar_reserva_validar env data w = None"
    using assms(6) by (simp add: criar_reserva_validar_campos [OF assms(1-5)])
  show ?thesis
    by (simp add: criar_reserva_aceite [OF v]
        criar_reserva_gravar_campos [OF assms(1-5) assms(7) assms(8)]
        tratar_excecao_def put_reserva_def montar_reserva_def)
qed

text \<open>A request for the free dates after the existing reservation of room \<open>q1\<close>.\<close>

theorem criar_reserva_erro_apos_gravar_witness:
  "fst (criar_reserva (env_exemplo ''r7'')
          (pedido_exemplo ''eva@example.com'' ''duplo'' ''2024-01-15'' ''2024-01-18'' 3)
          mundo_ocupado) = erro_response msg_erro_processar
   \<and> map (\<lambda>r. (reserva_id r, r_status r))
        (reservas_table (snd (criar_reserva (env_exemplo ''r7'')
          (pedido_exemplo ''eva@example.com'' ''duplo'' ''2024-01-15'' ''2024-01-18'' 3)
          mundo_ocupado)))
      = [(''r0'', ''confirmada''), (''r7'', ''confirmada'')]"
proof -
  have d: "disponivel (verificar_disponibilidade (env_exemplo ''r7'')
      (JStr ''2024-01-15'') (JStr ''2024-01-18'') (JStr ''duplo'') mundo_ocupado)"
    by (simp add: avaliar)
  have i: "py_int (env_exemplo ''r7'') (JInt 3) = Some 3"
    by (simp add: py_int_def)
  have f: "\<not> falha_put_reserva (env_exemplo ''r7'')"
    by (simp add: env_exemplo_def)
  show ?thesis
    using criar_reserva_erro_apos_gravar [OF pedido_exemplo_campos d i f]
    by (simp add: montar_reserva_def mundo_ocupado_def mundo_vazio_def reserva_no_quarto_def
        env_exemplo_def)
qed

subsection \<open>A room type that is not in the catalogue\<close>

text \<open>
  Claim C9, as the code has it. A request with every required field whose room type
  matches no room of the catalogue is rejected with status 400 and the reason of an
  unavailable room, and nothing is written. The response does not tell an unknown room
  type from a room that is taken.
\<close>

theorem criar_reserva_tipo_desconhecido:
  assumes "data ''cliente_email'' = Some email"
    and "data ''checkin'' = Some checkin"
    and "data ''checkout'' = Some checkout"
    and "data ''tipo_quarto'' = Some tipo_quarto"
    and "data ''num_hospedes'' = Some num_hospedes"
    and "quartos_do_tipo tipo_quarto w = []"
  shows "criar_reserva env data w = (erro_response msg_indisponivel, w)"
proof -
  have "verificar_disponibilidade env checkin checkout tipo_quarto w = None"
    using assms(6) by (simp add: verificar_disponibilidade_def)
  then have "criar_reserva_validar env data w = Some (Inr (erro_response msg_indisponivel))"
    by (simp add: criar_reserva_validar_campos [OF assms(1-5)] disponivel_def)
  then show ?thesis
    by (rule criar_reserva_rejeitada)
qed

text \<open>No room of the hostel has the type \<open>suite\<close>.\<close>

theorem criar_reserva_tipo_desconhecido_witness:
  "criar_reserva (env_exemplo ''r3'')
     (pedido_exemplo ''ana@example.com'' ''suite'' ''2024-02-01'' ''2024-02-03'' 2) mundo_vazio
   = (erro_response msg_indisponivel, mundo_vazio)"
proof -
  have q: "quartos_do_tipo (JStr ''suite'') mundo_vazio = []"
    by (simp add: quartos_do_tipo_def mundo_vazio_def quarto_duplo_def)
  show ?thesis
    using criar_reserva_tipo_desconhecido [OF pedido_exemplo_campos q] by simp
qed

text \<open>
  Against claim C9 as stated: in the hostel whose double room is taken for
  \<open>[2024-01-10, 2024-01-15)\<close>, the response to a request for the unknown type \<open>suite\<close>
  is the very response to a request for the taken double room. (The room \<open>q1\<close> is
  taken by an item that carries its \<^verbatim>\<open>quarto_id\<close>.)
\<close>

theorem tipo_desconhecido_igual_a_indisponivel:
  "fst (criar_reserva (env_exemplo ''r3'')
          (pedido_exemplo ''ana@example.com'' ''suite'' ''2024-01-14'' ''2024-01-16'' 2)
          mundo_ocupado)
   = fst (criar_reserva (env_exemplo ''r3'')
          (pedido_exemplo ''ana@example.com'' ''duplo'' ''2024-01-14'' ''2024-01-16'' 2)
          mundo_ocupado)
   \<and> length (quartos_do_tipo (JStr ''suite'') mundo_ocupado) = 0
   \<and> length (quartos_do_tipo (JStr ''duplo'') mundo_ocupado) = 1"
  by (simp add: avaliar)

subsection \<open>Validation of the request\<close>

lemma verificar_quarto_disponivel_ilegivel:
  "py_fromisoformat env checkin = None \<or> py_fromisoformat env checkout = None \<Longrightarrow>
     \<not> verificar_quarto_disponivel env qid checkin checkout w"
  by (auto simp: verificar_quarto_disponivel_def verificar_quarto_disponivel_try_def
      split: option.splits)

lemma primeiro_quarto_livre_ilegivel:
  "py_fromisoformat env checkin = None \<or> py_fromisoformat env checkout = None \<Longrightarrow>
     primeiro_quarto_livre env checkin checkout w qs = None"
  by (induction qs) (simp_all add: verificar_quarto_disponivel_ilegivel)

lemma criar_reserva_campo_ausente:
  assumes "find (\<lambda>campo. data campo = None) campos_obrigatorios = Some c"
  shows "criar_reserva env data w = (erro_response (''Campo obrigatorio: '' @ c), w)"
  using assms
  by (simp add: criar_reserva_def criar_reserva_try_def criar_reserva_validar_def
      tratar_excecao_def)

text \<open>
  Claim C8, as the code has it. A request that lacks a required field is rejected with
  status 400 and the reason that names a missing field, and the state is unchanged. A
  request with every required field whose check-in or check-out does not parse is
  rejected with the reason of an unavailable room, and the state is unchanged. The
  guest count is not checked.
\<close>

theorem criar_reserva_validacao:
  "(campo \<in> set campos_obrigatorios \<and> data campo = None \<longrightarrow>
      (\<exists>c. c \<in> set campos_obrigatorios \<and> data c = None
           \<and> criar_reserva env data w = (erro_response (''Campo obrigatorio: '' @ c), w)))
   \<and> (data ''cliente_email'' = Some email \<and> data ''checkin'' = Some checkin
       \<and> data ''checkout'' = Some checkout \<and> data ''tipo_quarto'' = Some tipo_quarto
       \<and> data ''num_hospedes'' = Some num_hospedes
       \<and> (py_fromisoformat env checkin = None \<or> py_fromisoformat env checkout = None) \<longrightarrow>
      criar_reserva env data w = (erro_response msg_indisponivel, w))"
proof (intro conjI impI)
  assume a: "campo \<in> set campos_obrigatorios \<and> data campo = None"
  then obtain c where c: "find (\<lambda>campo. data campo = None) campos_obrigatorios = Some c"
    by (cases "find (\<lambda>campo. data campo = None) campos_obrigatorios")
      (auto simp: find_None_iff)
  then have "c \<in> set campos_obrigatorios \<and> data c = None"
    by (auto simp: find_Some_iff)
  with criar_reserva_campo_ausente [OF c]
  show "\<exists>c. c \<in> set campos_obrigatorios \<and> data c = None
           \<and> criar_reserva env data w = (erro_response (''Campo obrigatorio: '' @ c), w)"
    by blast
next
  assume a: "data ''cliente_email'' = Some email \<and> data ''checkin'' = Some checkin
       \<and> data ''checkout'' = Some checkout \<and> data ''tipo_quarto'' = Some tipo_quarto
       \<and> data ''num_hospedes'' = Some num_hospedes
       \<and> (py_fromisoformat env checkin = None \<or> py_fromisoformat env checkout = None)"
  then have "verificar_disponibilidade env checkin checkout tipo_quarto w = None"
    by (simp add: verificar_disponibilidade_def primeiro_quarto_livre_ilegivel)
  with a have "criar_reserva_validar env data w = Some (Inr (erro_response msg_indisponivel))"
    by (simp add: criar_reserva_validar_campos [of data email checkin checkout tipo_quarto
          num_hospedes] disponivel_def)
  then show "criar_reserva env data w = (erro_response msg_indisponivel, w)"
    by (rule criar_reserva_rejeitada)
qed

text \<open>A request without \<^verbatim>\<open>cliente_email\<close>, and a request whose check-in is no date.\<close>

theorem criar_reserva_validacao_witness:
  "criar_reserva (env_exemplo ''r4'')
     ((pedido_exemplo ''ana@example.com'' ''duplo'' ''2024-01-10'' ''2024-01-13'' 2)
        (''cliente_email'' := None))
     mundo_vazio
   = (erro_response ''Campo obrigatorio: cliente_email'', mundo_vazio)
   \<and> criar_reserva (env_exemplo ''r4'')
       (pedido_exemplo ''ana@example.com'' ''duplo'' ''amanha'' ''2024-01-13'' 2) mundo_vazio
     = (erro_response msg_indisponivel, mundo_vazio)"
proof -
  let ?sem_email = "(pedido_exemplo ''ana@example.com'' ''duplo'' ''2024-01-10'' ''2024-01-13'' 2)
        (''cliente_email'' := None)"
  let ?ilegivel = "pedido_exemplo ''ana@example.com'' ''duplo'' ''amanha'' ''2024-01-13'' 2"
  have m: "''cliente_email'' \<in> set campos_obrigatorios \<and> ?sem_email ''cliente_email'' = None"
    by (simp add: campos_obrigatorios_def)
  have u: "c = ''cliente_email''" if "c \<in> set campos_obrigatorios \<and> ?sem_email c = None" for c
    using that by (auto simp: campos_obrigatorios_def pedido_exemplo_def)
  have "\<exists>c. c \<in> set campos_obrigatorios \<and> ?sem_email c = None
      \<and> criar_reserva (env_exemplo ''r4'') ?sem_email mundo_vazio
          = (erro_response (''Campo obrigatorio: '' @ c), mundo_vazio)"
    using criar_reserva_validacao [where campo = "''cliente_email''" and data = ?sem_email
        and env = "env_exemplo ''r4''" and w = mundo_vazio, THEN conjunct1, THEN mp, OF m] .
  then obtain c where c: "c \<in> set campos_obrigatorios \<and> ?sem_email c = None"
    and r: "criar_reserva (env_exemplo ''r4'') ?sem_email mundo_vazio
          = (erro_response (''Campo obrigatorio: '' @ c), mundo_vazio)"
    by blast
  have 1: "criar_reserva (env_exemplo ''r4'') ?sem_email mundo_vazio
      = (erro_response ''Campo obrigatorio: cliente_email'', mundo_vazio)"
    using r u [OF c] by simp
  have h: "?ilegivel ''cliente_email'' = Some (JStr ''ana@example.com'')
       \<and> ?ilegivel ''checkin'' = Some (JStr ''amanha'')
       \<and> ?ilegivel ''checkout'' = Some (JStr ''2024-01-13'')
       \<and> ?ilegivel ''tipo_quarto'' = Some (JStr ''duplo'')
       \<and> ?ilegivel ''num_hospedes'' = Some (JInt 2)
       \<and> (py_fromisoformat (env_exemplo ''r4'') (JStr ''amanha'') = None
          \<or> py_fromisoformat (env_exemplo ''r4'') (JStr ''2024-01-13'') = None)"
    by (simp add: pedido_exemplo_campos py_fromisoformat_exemplo iso_data_ilegivel)
  have 2: "criar_reserva (env_exemplo ''r4'') ?ilegivel mundo_vazio
     = (erro_response msg_indisponivel, mundo_vazio)"
    using criar_reserva_validacao [where data = ?ilegivel
        and env = "env_exemplo ''r4''" and w = mundo_vazio, THEN conjunct2, THEN mp, OF h] .
  show ?thesis
    using 1 2 by (rule conjI)
qed

text \<open>
  Against claim C8 as stated: requests with the guest counts 0 and -1 are not rejected
  before the write; their reservations are in the table, confirmed.
\<close>

theorem hospedes_nao_positivos_gravados:
  "map (\<lambda>r. (r_num_hospedes r, r_status r))
     (reservas_table (snd (criar_reserva (env_exemplo ''r5'')
        (pedido_exemplo ''ana@example.com'' ''duplo'' ''2024-01-10'' ''2024-01-13'' 0)
        mundo_vazio)))
   = [(0, ''confirmada'')]
   \<and> map (\<lambda>r. (r_num_hospedes r, r_status r))
     (reservas_table (snd (criar_reserva (env_exemplo ''r5'')
        (pedido_exemplo ''ana@example.com'' ''duplo'' ''2024-01-10'' ''2024-01-13'' (- 1))
        mundo_vazio)))
   = [(- 1, ''confirmada'')]"
  by (simp add: avaliar)

subsection \<open>Stays of zero nights\<close>

lemma calcular_valor_reserva_zero_noites:
  "calcular_valor_reserva env dia dia tipo_quarto num_hospedes w = 0"
  by (simp add: calcular_valor_reserva_def calcular_valor_reserva_try_def days_def um_dia_def
      Let_def split: list.splits option.splits)

text \<open>
  Claim C4, as the code has it. A request with every required field whose check-in and
  check-out are the same value is not rejected as invalid: the availability check
  decides. When no room of the type is available the request is rejected with the
  reason of an unavailable room and the state is unchanged; when one is available (and
  the guest count converts and the write succeeds) a confirmed reservation with the
  total 0 is written.
\<close>

theorem criar_reserva_zero_noites:
  assumes "data ''cliente_email'' = Some email"
    and "data ''checkin'' = Some dia"
    and "data ''checkout'' = Some dia"
    and "data ''tipo_quarto'' = Some tipo_quarto"
    and "data ''num_hospedes'' = Some num_hospedes"
  shows "(\<not> disponivel (verificar_disponibilidade env dia dia tipo_quarto w) \<longrightarrow>
            criar_reserva env data w = (erro_response msg_indisponivel, w))
     \<and> (disponivel (verificar_disponibilidade env dia dia tipo_quarto w)
         \<and> py_int env num_hospedes = Some n \<and> \<not> falha_put_reserva env \<longrightarrow>
            reservas_table (snd (criar_reserva env data w)) =
              put_reserva (montar_reserva env data email dia dia tipo_quarto n 0)
                (reservas_table w))"
proof (intro conjI impI)
  assume "\<not> disponivel (verificar_disponibilidade env dia dia tipo_quarto w)"
  then have "criar_reserva_validar env data w = Some (Inr (erro_response msg_indisponivel))"
    by (simp add: criar_reserva_validar_campos [OF assms])
  then show "criar_reserva env data w = (erro_response msg_indisponivel, w)"
    by (rule criar_reserva_rejeitada)
next
  assume a: "disponivel (verificar_disponibilidade env dia dia tipo_quarto w)
         \<and> py_int env num_hospedes = Some n \<and> \<not> falha_put_reserva env"
  then have v: "criar_reserva_validar env data w = None"
    by (simp add: criar_reserva_validar_campos [OF assms])
  from a have i: "py_int env num_hospedes = Some n" and f: "\<not> falha_put_reserva env"
    by simp_all
  show "reservas_table (snd (criar_reserva env data w)) =
          put_reserva (montar_reserva env data email dia dia tipo_quarto n 0) (reservas_table w)"
    by (simp add: criar_reserva_aceite [OF v] criar_reserva_gravar_campos [OF assms i f]
        tratar_excecao_def calcular_valor_reserva_zero_noites)
qed

text \<open>
  With room \<open>q1\<close> taken for \<open>[2024-01-10, 2024-01-15)\<close>: a zero-night request on the
  14th is refused, one on the 16th is written with the total 0.
\<close>

theorem criar_reserva_zero_noites_witness:
  "criar_reserva (env_exemplo ''r6'')
     (pedido_exemplo ''ana@example.com'' ''duplo'' ''2024-01-14'' ''2024-01-14'' 2) mundo_ocupado
   = (erro_response msg_indisponivel, mundo_ocupado)
   \<and> map (\<lambda>r. (reserva_id r, r_checkin r, r_checkout r, r_status r, r_valor_total r))
       (reservas_table (snd (criar_reserva (env_exemplo ''r6'')
          (pedido_exemplo ''ana@example.com'' ''duplo'' ''2024-01-16'' ''2024-01-16'' 2)
          mundo_ocupado)))
     = [(''r0'', JStr ''2024-01-10'', JStr ''2024-01-15'', ''confirmada'', 250),
        (''r6'', JStr ''2024-01-16'', JStr ''2024-01-16'', ''confirmada'', 0)]"
proof -
  let ?dentro = "pedido_exemplo ''ana@example.com'' ''duplo'' ''2024-01-14'' ''2024-01-14'' 2"
  let ?fora = "pedido_exemplo ''ana@example.com'' ''duplo'' ''2024-01-16'' ''2024-01-16'' 2"
  have n: "\<not> disponivel (verificar_disponibilidade (env_exemplo ''r6'')
      (JStr ''2024-01-14'') (JStr ''2024-01-14'') (JStr ''duplo'') mundo_ocupado)"
    by (simp add: avaliar)
  have d: "disponivel (verificar_disponibilidade (env_exemplo ''r6'')
      (JStr ''2024-01-16'') (JStr ''2024-01-16'') (JStr ''duplo'') mundo_ocupado)
      \<and> py_int (env_exemplo ''r6'') (JInt 2) = Some 2
      \<and> \<not> falha_put_reserva (env_exemplo ''r6'')"
    by (simp add: avaliar)
  have 1: "criar_reserva (env_exemplo ''r6'') ?dentro mundo_ocupado
      = (erro_response msg_indisponivel, mundo_ocupado)"
    using criar_reserva_zero_noites [where data = ?dentro, OF pedido_exemplo_campos,
        THEN conjunct1, THEN mp, OF n] .
  have 2: "reservas_table (snd (criar_reserva (env_exemplo ''r6'') ?fora mundo_ocupado)) =
      put_reserva
        (montar_reserva (env_exemplo ''r6'') ?fora (JStr ''ana@example.com'')
           (JStr ''2024-01-16'') (JStr ''2024-01-16'') (JStr ''duplo'') 2 0)
        (reservas_table mundo_ocupado)"
    using criar_reserva_zero_noites [where data = ?fora, OF pedido_exemplo_campos,
        THEN conjunct2, THEN mp, OF d] .
  have 3: "map (\<lambda>r. (reserva_id r, r_checkin r, r_checkout r, r_status r, r_valor_total r))
       (put_reserva
        (montar_reserva (env_exemplo ''r6'') ?fora (JStr ''ana@example.com'')
           (JStr ''2024-01-16'') (JStr ''2024-01-16'') (JStr ''duplo'') 2 0)
        (reservas_table mundo_ocupado))
     = [(''r0'', JStr ''2024-01-10'', JStr ''2024-01-15'', ''confirmada'', 250),
        (''r6'', JStr ''2024-01-16'', JStr ''2024-01-16'', ''confirmada'', 0)]"
    by (simp add: put_reserva_def montar_reserva_def mundo_ocupado_def mundo_vazio_def
        reserva_no_quarto_def env_exemplo_def)
  show ?thesis
    using 1 3 by (simp only: 2 simp_thms)
qed

text \<open>
  Against claim C4 as stated: in the empty hostel a request with check-in and check-out
  on 2024-01-10 is found available and its reservation is written, confirmed.
\<close>

theorem zero_noites_gravada:
  "verificar_disponibilidade (env_exemplo ''r6'')
      (JStr ''2024-01-10'') (JStr ''2024-01-10'') (JStr ''duplo'') mundo_vazio = Some ''q1''
   \<and> map (\<lambda>r. (r_checkin r, r_checkout r, r_status r, r_valor_total r))
       (reservas_table (snd (criar_reserva (env_exemplo ''r6'')
          (pedido_exemplo ''ana@example.com'' ''duplo'' ''2024-01-10'' ''2024-01-10'' 2)
          mundo_vazio)))
     = [(JStr ''2024-01-10'', JStr ''2024-01-10'', ''confirmada'', 0)]"
  by (simp add: avaliar)

end
